theory Spec2Isabelle
  imports Main "HOL-Library.Char_ord" "HOL-Library.List_Lexorder" "HOL-Library.Sublist"
    "HOL-Library.Multiset"
begin

section \<open>The worker inventory reporter of buildctl (cmd/buildctl/debug/workers.go)\<close>

text \<open>
  The development embeds \<^verbatim>\<open>listWorkers\<close>, \<^verbatim>\<open>printWorkersVerbose\<close>,
  \<^verbatim>\<open>printWorkersTable\<close>, \<^verbatim>\<open>sortedKeys\<close> and \<^verbatim>\<open>joinPlatforms\<close>.
  Go strings are byte sequences, here \<^typ>\<open>string\<close>; their order is the bytewise
  lexicographic one, which is the order of \<^typ>\<open>char list\<close> given by the two
  library theories imported above.
\<close>

subsection \<open>Characters and formatting verbs\<close>

abbreviation TAB :: char where "TAB \<equiv> CHR 0x09"
abbreviation LF :: char where "LF \<equiv> CHR 0x0A"

text \<open>The verb \<^verbatim>\<open>%v\<close> on a Go bool.\<close>

definition fmt_bool :: "bool \<Rightarrow> string" where
  "fmt_bool b = (if b then ''true'' else ''false'')"

text \<open>The verb \<^verbatim>\<open>%d\<close> on a slice index, which is never negative.\<close>

fun fmt_d :: "nat \<Rightarrow> string" where
  "fmt_d n = (if n < 10 then [''0123456789'' ! n]
              else fmt_d (n div 10) @ [''0123456789'' ! (n mod 10)])"

declare fmt_d.simps [simp del]

text \<open>\<^verbatim>\<open>strings.Join\<close>: no separator before the first or after the last element.\<close>

fun strings_Join :: "string list \<Rightarrow> string \<Rightarrow> string" where
  "strings_Join [] sep = []"
| "strings_Join [x] sep = x"
| "strings_Join (x # y # ys) sep = x @ sep @ strings_Join (y # ys) sep"

subsection \<open>Data model\<close>

text \<open>
  A Go \<^verbatim>\<open>map[string]string\<close> is an association list with pairwise distinct keys. The
  order of the list stands for the iteration order of the map, which Go leaves
  unspecified; \<open>gomap_ok\<close> is the invariant that a key occurs once.
\<close>

type_synonym gomap = "(string \<times> string) list"

definition gomap_ok :: "gomap \<Rightarrow> bool" where
  "gomap_ok m = distinct (map fst m)"

text \<open>\<^verbatim>\<open>maps.Keys(m)\<close>: the keys in iteration order.\<close>

definition maps_Keys :: "gomap \<Rightarrow> string list" where
  "maps_Keys m = map fst m"

text \<open>\<^verbatim>\<open>m[k]\<close>: the value stored under the key, the zero value when there is none.\<close>

definition index_map :: "gomap \<Rightarrow> string \<Rightarrow> string" where
  "index_map m k = (case map_of m k of Some v \<Rightarrow> v | None \<Rightarrow> [])"

text \<open>
  Modelled from the spec: the declarations of \<^verbatim>\<open>ocispecs.Platform\<close>,
  \<^verbatim>\<open>client.CDIDevice\<close>, \<^verbatim>\<open>client.PruneInfo\<close>, \<^verbatim>\<open>client.BuildkitVersion\<close> and
  \<^verbatim>\<open>client.WorkerInfo\<close> are not among the sources. The records carry the fields
  that the reporter reads, under the names it reads them by and with the types of the
  data model of the specification. Durations and byte counts are signed 64-bit
  integers in Go; the reporter only compares them with zero, so they are integers
  here. The field \<^verbatim>\<open>All\<close> of a rule is \<open>All_rule\<close>, and \<^verbatim>\<open>Filter\<close> is \<open>Filter_rule\<close>.
\<close>

record Platform =
  Architecture :: string
  OS :: string
  Variant :: string

record CDIDevice =
  Name :: string
  AutoAllow :: bool
  Annotations :: gomap
  OnDemand :: bool

record PruneInfo =
  Filter_rule :: "string list"
  All_rule :: bool
  KeepDuration :: int
  ReservedSpace :: int
  MaxUsedSpace :: int
  MinFreeSpace :: int

record BuildkitVersion =
  Package :: string
  Version :: string
  Revision :: string

record WorkerInfo =
  ID :: string
  Labels :: gomap
  Platforms :: "Platform list"
  GCPolicy :: "PruneInfo list"
  BuildkitVersion :: BuildkitVersion
  CDIDevices :: "CDIDevice list"

subsection \<open>Errors, sinks and the tab writer\<close>

datatype error =
  ResolveClientError string
| ListWorkersError string
| TemplateSyntaxError string
| TemplateExecutionError string
| SinkWriteError

text \<open>
  An \<^verbatim>\<open>io.Writer\<close>. \<open>written\<close> is what it has accepted so far; \<open>room\<close> is the number
  of bytes it still accepts before it rejects a write (\<open>None\<close>: it never rejects);
  \<open>rejected\<close> counts the calls of \<^verbatim>\<open>Write\<close> that returned an error. A rejected write
  keeps the bytes that still fitted, as a short write does.
\<close>

record sink =
  written :: string
  room :: "nat option"
  rejected :: nat

definition sink_Write :: "sink \<Rightarrow> string \<Rightarrow> sink \<times> error option" where
  "sink_Write s p =
     (case room s of
        None \<Rightarrow> (s\<lparr>written := written s @ p\<rparr>, None)
      | Some n \<Rightarrow>
          if length p \<le> n
          then (s\<lparr>written := written s @ p, room := Some (n - length p)\<rparr>, None)
          else (s\<lparr>written := written s @ take n p, room := Some 0,
                  rejected := Suc (rejected s)\<rparr>, Some SinkWriteError))"

text \<open>
  The functions of other packages that the reporter calls are parameters of the model:
  the outcome of \<^verbatim>\<open>bccommon.ResolveClient\<close> (it reads the global connection flags,
  none of the three flags of this command), the worker query, \<^verbatim>\<open>platforms.Normalize\<close> and
  \<^verbatim>\<open>platforms.Format\<close>, \<^verbatim>\<open>time.Duration.String\<close>, the verb \<^verbatim>\<open>%g\<close> on
  \<^verbatim>\<open>units.Bytes\<close>, the column alignment of \<^verbatim>\<open>text/tabwriter\<close> (a function of the
  whole text queued before the flush), \<^verbatim>\<open>bccommon.ParseTemplate\<close>, and the expansion
  of a parsed template on a worker list: the text it emits and, when the expansion
  stops with a failure, that failure.
\<close>

record Context =
  flag_filter :: "string list"
  flag_verbose :: bool
  flag_format :: "string option"

record ('c, 't) externals =
  ResolveClient :: "error + 'c"
  ListWorkers :: "'c \<Rightarrow> string list \<Rightarrow> error + WorkerInfo list"
  platforms_Normalize :: "Platform \<Rightarrow> Platform"
  platforms_Format :: "Platform \<Rightarrow> string"
  Duration_String :: "int \<Rightarrow> string"
  fmt_g_Bytes :: "int \<Rightarrow> string"
  tabwriter_format :: "string \<Rightarrow> string"
  ParseTemplate :: "string \<Rightarrow> error + 't"
  expand :: "'t \<Rightarrow> WorkerInfo list \<Rightarrow> string \<times> error option"

text \<open>
  \<^verbatim>\<open>clicontext.String("format")\<close>, \<^verbatim>\<open>clicontext.Bool("verbose")\<close> and
  \<^verbatim>\<open>clicontext.StringSlice("filter")\<close>. A string flag that was not given on the
  command line reads as the empty string.
\<close>

definition String_format :: "Context \<Rightarrow> string" where
  "String_format c = (case flag_format c of None \<Rightarrow> [] | Some s \<Rightarrow> s)"

definition Bool_verbose :: "Context \<Rightarrow> bool" where
  "Bool_verbose c = flag_verbose c"

definition StringSlice_filter :: "Context \<Rightarrow> string list" where
  "StringSlice_filter c = flag_filter c"

text \<open>
  A \<^verbatim>\<open>tabwriter.Writer\<close>: \<open>queued\<close> holds the text of the \<^verbatim>\<open>Write\<close> calls received
  since the last flush, one element per call (each \<^verbatim>\<open>fmt.Fprintf\<close> is one call);
  \<open>dest\<close> is the writer underneath. \<^verbatim>\<open>Flush\<close> hands the aligned text to the writer
  underneath and reports what that writer reports.
\<close>

record tabwriter =
  queued :: "string list"
  dest :: sink

definition NewWriter :: "sink \<Rightarrow> tabwriter" where
  "NewWriter s = \<lparr>queued = [], dest = s\<rparr>"

definition Fprint :: "tabwriter \<Rightarrow> string \<Rightarrow> tabwriter" where
  "Fprint tw s = tw\<lparr>queued := queued tw @ [s]\<rparr>"

definition Flush :: "('c, 't) externals \<Rightarrow> tabwriter \<Rightarrow> tabwriter \<times> error option" where
  "Flush ext tw =
     (case sink_Write (dest tw) (tabwriter_format ext (concat (queued tw))) of
        (s, err) \<Rightarrow> (\<lparr>queued = [], dest = s\<rparr>, err))"

subsection \<open>sortedKeys and joinPlatforms\<close>

definition sortedKeys :: "gomap \<Rightarrow> string list" where
  "sortedKeys m = sort (maps_Keys m)"

definition joinPlatforms :: "('c, 't) externals \<Rightarrow> Platform list \<Rightarrow> string" where
  "joinPlatforms ext p =
     strings_Join
       (foldl (\<lambda>str pp. str @ [platforms_Format ext (platforms_Normalize ext pp)]) [] p)
       '',''"

subsection \<open>printWorkersTable\<close>

definition table_header :: string where
  "table_header = ''ID'' @ [TAB] @ ''PLATFORMS'' @ [LF]"

definition table_row :: "('c, 't) externals \<Rightarrow> WorkerInfo \<Rightarrow> string" where
  "table_row ext wi = ID wi @ [TAB] @ joinPlatforms ext (Platforms wi) @ [LF]"

text \<open>The rows queued before the flush (lines 129 to 134), one per call.\<close>

definition table_rows :: "('c, 't) externals \<Rightarrow> tabwriter \<Rightarrow> WorkerInfo list \<Rightarrow> tabwriter" where
  "table_rows ext tw winfo =
     foldl (\<lambda>tw wi. Fprint tw (table_row ext wi)) (Fprint tw table_header) winfo"

text \<open>The result of \<^verbatim>\<open>tw.Flush()\<close> is dropped, as in the source.\<close>

definition printWorkersTable :: "('c, 't) externals \<Rightarrow> tabwriter \<Rightarrow> WorkerInfo list \<Rightarrow> tabwriter" where
  "printWorkersTable ext tw winfo = fst (Flush ext (table_rows ext tw winfo))"

subsection \<open>printWorkersVerbose\<close>

text \<open>
  The calls of \<^verbatim>\<open>fmt.Fprintf\<close> that the body of the loop makes for one worker, in
  order, one list element per call. Lines 81 to 85: the labels.
\<close>

definition label_line :: "string \<Rightarrow> string \<Rightarrow> string" where
  "label_line k v = [TAB] @ k @ '':'' @ [TAB] @ v @ [LF]"

definition verbose_labels :: "gomap \<Rightarrow> string list" where
  "verbose_labels m =
     (''Labels:'' @ [LF]) # map (\<lambda>k. label_line k (index_map m k)) (sortedKeys m)"

text \<open>Lines 89 to 99: one device.\<close>

definition annotation_line :: "string \<Rightarrow> string \<Rightarrow> string" where
  "annotation_line k v = [TAB] @ ''Annotations:'' @ [TAB] @ k @ '':'' @ [TAB] @ v @ [LF]"

definition verbose_device :: "CDIDevice \<Rightarrow> string list" where
  "verbose_device d =
     [[TAB] @ ''Name:'' @ [TAB] @ Name d @ [LF],
      (if OnDemand d
       then [TAB] @ ''OnDemand:'' @ [TAB] @ fmt_bool (OnDemand d) @ [LF]
       else [TAB] @ ''AutoAllow:'' @ [TAB] @ fmt_bool (AutoAllow d) @ [LF])]
     @ map (\<lambda>k. annotation_line k (index_map (Annotations d) k)) (sortedKeys (Annotations d))"

text \<open>Lines 86 to 102: the section of the devices, absent when there is no device.\<close>

definition verbose_devices :: "CDIDevice list \<Rightarrow> string list" where
  "verbose_devices ds =
     (if length ds > 0
      then [''Devices:'' @ [LF]] @ concat (map verbose_device ds) @ [[LF]]
      else [])"

text \<open>Lines 104 to 120: the rule of index \<open>i\<close>.\<close>

definition verbose_rule :: "('c, 't) externals \<Rightarrow> nat \<Rightarrow> PruneInfo \<Rightarrow> string list" where
  "verbose_rule ext i rule =
     [''GC Policy rule#'' @ fmt_d i @ '':'' @ [LF],
      [TAB] @ ''All:'' @ [TAB] @ fmt_bool (All_rule rule) @ [LF]]
     @ (if length (Filter_rule rule) > 0
        then [[TAB] @ ''Filters:'' @ [TAB] @ strings_Join (Filter_rule rule) '' '' @ [LF]]
        else [])
     @ (if KeepDuration rule > 0
        then [[TAB] @ ''Keep duration:'' @ [TAB] @ Duration_String ext (KeepDuration rule) @ [LF]]
        else [])
     @ (if ReservedSpace rule > 0
        then [[TAB] @ ''Reserved space:'' @ [TAB] @ fmt_g_Bytes ext (ReservedSpace rule) @ [LF]]
        else [])
     @ (if MinFreeSpace rule > 0
        then [[TAB] @ ''Minimum free space:'' @ [TAB] @ fmt_g_Bytes ext (MinFreeSpace rule) @ [LF]]
        else [])
     @ (if MaxUsedSpace rule > 0
        then [[TAB] @ ''Maximum used space:'' @ [TAB] @ fmt_g_Bytes ext (MaxUsedSpace rule) @ [LF]]
        else [])"

text \<open>Lines 78 to 122: the whole block of one worker.\<close>

definition verbose_worker :: "('c, 't) externals \<Rightarrow> WorkerInfo \<Rightarrow> string list" where
  "verbose_worker ext wi =
     [''ID:'' @ [TAB] @ ID wi @ [LF],
      ''Platforms:'' @ [TAB] @ joinPlatforms ext (Platforms wi) @ [LF],
      ''BuildKit:'' @ [TAB] @ Package (BuildkitVersion wi) @ '' ''
         @ Version (BuildkitVersion wi) @ '' '' @ Revision (BuildkitVersion wi) @ [LF]]
     @ verbose_labels (Labels wi)
     @ verbose_devices (CDIDevices wi)
     @ concat (map (\<lambda>(i, rule). verbose_rule ext i rule) (enumerate 0 (GCPolicy wi)))
     @ [[LF]]"

text \<open>The text queued before the flush (lines 77 to 123).\<close>

definition verbose_blocks :: "('c, 't) externals \<Rightarrow> tabwriter \<Rightarrow> WorkerInfo list \<Rightarrow> tabwriter" where
  "verbose_blocks ext tw winfo =
     foldl (\<lambda>tw wi. foldl Fprint tw (verbose_worker ext wi)) tw winfo"

definition printWorkersVerbose :: "('c, 't) externals \<Rightarrow> tabwriter \<Rightarrow> WorkerInfo list \<Rightarrow> tabwriter" where
  "printWorkersVerbose ext tw winfo = fst (Flush ext (verbose_blocks ext tw winfo))"

subsection \<open>listWorkers\<close>

text \<open>
  What the command can touch: the writer of the application, the standard output and
  the debug log. The command returns its error (\<open>None\<close> is \<^verbatim>\<open>nil\<close>) and the world it
  leaves behind.
\<close>

record World =
  App_Writer :: sink
  Stdout :: sink
  debug_log :: "string list"

definition Debug :: "World \<Rightarrow> string \<Rightarrow> World" where
  "Debug w msg = w\<lparr>debug_log := debug_log w @ [msg]\<rparr>"

text \<open>
  \<^verbatim>\<open>tmpl.Execute(wr, data)\<close>: the expansion is written to \<open>wr\<close>; a write that \<open>wr\<close>
  rejects ends the execution with that error, otherwise the failure of the expansion,
  if any, is the result.
\<close>

definition Execute ::
  "('c, 't) externals \<Rightarrow> 't \<Rightarrow> sink \<Rightarrow> WorkerInfo list \<Rightarrow> sink \<times> error option" where
  "Execute ext tmpl wr data =
     (case expand ext tmpl data of
        (txt, failure) \<Rightarrow>
          (case sink_Write wr txt of
             (wr', Some err) \<Rightarrow> (wr', Some err)
           | (wr', None) \<Rightarrow> (wr', failure)))"

text \<open>Lines 55 to 63: the template is parsed, executed once, and a newline follows.\<close>

definition format_workers ::
  "('c, 't) externals \<Rightarrow> string \<Rightarrow> WorkerInfo list \<Rightarrow> World \<Rightarrow> error option \<times> World" where
  "format_workers ext format workers w =
     (case ParseTemplate ext format of
        Inl err \<Rightarrow> (Some err, w)
      | Inr tmpl \<Rightarrow>
          (case Execute ext tmpl (App_Writer w) workers of
             (wr, Some err) \<Rightarrow> (Some err, w\<lparr>App_Writer := wr\<rparr>)
           | (wr, None) \<Rightarrow>
               (case sink_Write wr [LF] of
                  (wr', err) \<Rightarrow> (err, w\<lparr>App_Writer := wr'\<rparr>))))"

definition listWorkers ::
  "('c, 't) externals \<Rightarrow> Context \<Rightarrow> World \<Rightarrow> error option \<times> World" where
  "listWorkers ext clicontext w =
     (case ResolveClient ext of
        Inl err \<Rightarrow> (Some err, w)
      | Inr c \<Rightarrow>
          (case ListWorkers ext c (StringSlice_filter clicontext) of
             Inl err \<Rightarrow> (Some err, w)
           | Inr workers \<Rightarrow>
               if String_format clicontext \<noteq> []
               then format_workers ext (String_format clicontext) workers
                      (if Bool_verbose clicontext then Debug w ''Ignoring --verbose'' else w)
               else if Bool_verbose clicontext
               then (None, w\<lparr>Stdout := dest (printWorkersVerbose ext (NewWriter (Stdout w)) workers)\<rparr>)
               else (None, w\<lparr>Stdout := dest (printWorkersTable ext (NewWriter (Stdout w)) workers)\<rparr>)))"

subsection \<open>Sample data\<close>

definition sample_labels :: gomap where
  "sample_labels = [(''os'', ''linux''), (''arch'', ''amd64''), (''host'', ''w1'')]"

definition sample_device :: CDIDevice where
  "sample_device = \<lparr>Name = ''gpu0'', AutoAllow = True,
     Annotations = [(''vendor'', ''x''), (''class'', ''gpu'')], OnDemand = True\<rparr>"

definition sample_rule :: PruneInfo where
  "sample_rule = \<lparr>Filter_rule = [''type==source.local'', ''type==exec.cachemount''],
     All_rule = False, KeepDuration = 172800000000000, ReservedSpace = 0,
     MaxUsedSpace = 512000000, MinFreeSpace = - 1\<rparr>"

definition unset_rule :: PruneInfo where
  "unset_rule = \<lparr>Filter_rule = [], All_rule = True, KeepDuration = 0, ReservedSpace = 0,
     MaxUsedSpace = 0, MinFreeSpace = 0\<rparr>"

definition sample_worker :: WorkerInfo where
  "sample_worker = \<lparr>ID = ''w1'', Labels = sample_labels,
     Platforms = [\<lparr>Architecture = ''amd64'', OS = ''linux'', Variant = []\<rparr>,
                  \<lparr>Architecture = ''arm64'', OS = ''linux'', Variant = []\<rparr>],
     GCPolicy = [sample_rule, unset_rule],
     BuildkitVersion = \<lparr>Package = ''github.com/moby/buildkit'', Version = ''v0.1'', Revision = []\<rparr>,
     CDIDevices = [sample_device]\<rparr>"

text \<open>
  A stand-in for the other packages, used where a statement is evaluated: platforms are
  printed as \<^verbatim>\<open>os/arch\<close>, the tab writer leaves the text as it is, a template is its
  own text, the template \<^verbatim>\<open>{{\<close> does not parse, and the template \<^verbatim>\<open>{{.X}}\<close> fails
  after it has emitted nothing.
\<close>

definition sample_externals :: "(unit, string) externals" where
  "sample_externals =
     \<lparr>ResolveClient = Inr (),
      ListWorkers = (\<lambda>c f. Inr [sample_worker]),
      platforms_Normalize = (\<lambda>p. p),
      platforms_Format = (\<lambda>p. OS p @ ''/'' @ Architecture p),
      Duration_String = (\<lambda>d. fmt_d (nat (d div 3600000000000)) @ ''h0m0s''),
      fmt_g_Bytes = (\<lambda>n. fmt_d (nat n) @ ''B''),
      tabwriter_format = (\<lambda>t. t),
      ParseTemplate = (\<lambda>f. if f = ''{{'' then Inl (TemplateSyntaxError f) else Inr f),
      expand = (\<lambda>t ws. if t = ''{{.X}}'' then ([], Some (TemplateExecutionError t))
                          else (t, None))\<rparr>"

definition sample_context :: Context where
  "sample_context = \<lparr>flag_filter = [], flag_verbose = False, flag_format = None\<rparr>"

definition open_sink :: sink where
  "open_sink = \<lparr>written = [], room = None, rejected = 0\<rparr>"

definition full_sink :: sink where
  "full_sink = \<lparr>written = [], room = Some 0, rejected = 0\<rparr>"

definition sample_world :: World where
  "sample_world = \<lparr>App_Writer = open_sink, Stdout = open_sink, debug_log = []\<rparr>"

definition full_world :: World where
  "full_world = \<lparr>App_Writer = full_sink, Stdout = full_sink, debug_log = []\<rparr>"

subsection \<open>Vocabulary of the statements\<close>


text \<open>A sink accepts \<open>n\<close> more bytes.\<close>

definition accepts :: "sink \<Rightarrow> nat \<Rightarrow> bool" where
  "accepts s n = (case room s of None \<Rightarrow> True | Some r \<Rightarrow> n \<le> r)"





section \<open>Properties\<close>

subsection \<open>The tab writer and the helpers\<close>

lemma queued_Fprint: "queued (Fprint tw s) = queued tw @ [s]"
  by (simp add: Fprint_def)

lemma dest_Fprint: "dest (Fprint tw s) = dest tw"
  by (simp add: Fprint_def)



lemma foldl_snoc_map: "foldl (\<lambda>acc x. acc @ [f x]) acc xs = acc @ map f xs"
  by (induction xs arbitrary: acc) simp_all

lemma joinPlatforms_map:
  "joinPlatforms ext p =
     strings_Join (map (\<lambda>pp. platforms_Format ext (platforms_Normalize ext pp)) p) '',''"
  by (simp add: joinPlatforms_def foldl_snoc_map)

lemma queued_table_rows_aux:
  "queued (foldl (\<lambda>tw wi. Fprint tw (f wi)) tw winfo) = queued tw @ map f winfo"
  by (induction winfo arbitrary: tw) (simp_all add: Fprint_def)

lemma dest_table_rows_aux:
  "dest (foldl (\<lambda>tw wi. Fprint tw (f wi)) tw winfo) = dest tw"
  by (induction winfo arbitrary: tw) (simp_all add: Fprint_def)

lemma queued_table_rows:
  "queued (table_rows ext tw winfo) = queued tw @ table_header # map (table_row ext) winfo"
  by (simp add: table_rows_def queued_table_rows_aux queued_Fprint)

lemma dest_table_rows: "dest (table_rows ext tw winfo) = dest tw"
  by (simp add: table_rows_def dest_table_rows_aux dest_Fprint)




lemma written_sink_Write_open:
  "room s = None \<Longrightarrow> written (fst (sink_Write s p)) = written s @ p"
  by (simp add: sink_Write_def)

subsection \<open>Sorted keys\<close>

lemma sortedKeys_sorted: "sorted (sortedKeys m)"
  by (simp add: sortedKeys_def)





lemma index_map_member: "gomap_ok m \<Longrightarrow> (k, v) \<in> set m \<Longrightarrow> index_map m k = v"
  by (simp add: index_map_def gomap_ok_def)

lemma strings_Join_no_LF:
  "\<forall>x\<in>set xs. c \<notin> set x \<Longrightarrow> c \<notin> set sep \<Longrightarrow> c \<notin> set (strings_Join xs sep)"
  by (induction xs sep rule: strings_Join.induct) simp_all

lemma table_line_feeds:
  assumes "\<forall>wi\<in>set winfo. LF \<notin> set (ID wi) \<and>
             (\<forall>p\<in>set (Platforms wi). LF \<notin> set (platforms_Format ext (platforms_Normalize ext p)))"
  shows "length (filter (\<lambda>c. c = LF) (concat (table_header # map (table_row ext) winfo)))
           = 1 + length winfo"
proof -
  have row: "length (filter (\<lambda>c. c = LF) (table_row ext wi)) = 1" if "wi \<in> set winfo" for wi
  proof -
    have "LF \<notin> set (joinPlatforms ext (Platforms wi))"
      unfolding joinPlatforms_map using assms that
      by (intro strings_Join_no_LF) auto
    moreover have "LF \<notin> set (ID wi)"
      using assms that by blast
    ultimately show ?thesis
      by (auto simp: table_row_def filter_id_conv filter_empty_conv)
  qed
  have "length (filter (\<lambda>c. c = LF) (concat (map (table_row ext) ws))) = length ws"
    if "set ws \<subseteq> set winfo" for ws
    using that by (induction ws) (simp_all add: row)
  then show ?thesis
    by (simp add: table_header_def)
qed

subsection \<open>Table mode\<close>



subsection \<open>Verbose mode: labels\<close>



subsection \<open>Verbose mode: devices\<close>



subsection \<open>Verbose mode: garbage collection rules\<close>









subsection \<open>The template path\<close>

lemma sink_Write_cases:
  "sink_Write s p = (s', err) \<Longrightarrow>
     (err = None \<and> written s' = written s @ p \<and> rejected s' = rejected s \<and> accepts s (length p))
     \<or> (err = Some SinkWriteError \<and> rejected s' = Suc (rejected s) \<and> \<not> accepts s (length p)
         \<and> prefix (written s) (written s'))"
  by (auto simp: sink_Write_def accepts_def split: option.splits if_splits)

lemma sink_Write_accepts:
  "accepts s (length p) \<Longrightarrow>
     sink_Write s p =
       (s\<lparr>written := written s @ p,
          room := (case room s of None \<Rightarrow> None | Some n \<Rightarrow> Some (n - length p))\<rparr>, None)"
  by (auto simp: sink_Write_def accepts_def split: option.splits)

lemma format_workers_Stdout: "Stdout (snd (format_workers ext f ws w)) = Stdout w"
  by (simp add: format_workers_def split: sum.splits prod.splits option.splits)

lemma format_workers_Debug:
  "fst (format_workers ext f ws (w\<lparr>debug_log := l\<rparr>)) = fst (format_workers ext f ws w)
   \<and> App_Writer (snd (format_workers ext f ws (w\<lparr>debug_log := l\<rparr>)))
       = App_Writer (snd (format_workers ext f ws w))"
  by (simp add: format_workers_def split: sum.splits prod.splits option.splits)

lemma listWorkers_format:
  assumes "ResolveClient ext = Inr c"
    and "ListWorkers ext c (StringSlice_filter ctx) = Inr workers"
    and "String_format ctx \<noteq> []"
  shows "fst (listWorkers ext ctx w) = fst (format_workers ext (String_format ctx) workers w)"
    and "App_Writer (snd (listWorkers ext ctx w))
           = App_Writer (snd (format_workers ext (String_format ctx) workers w))"
    and "Stdout (snd (listWorkers ext ctx w)) = Stdout w"
  using assms
  by (simp_all add: listWorkers_def format_workers_Debug format_workers_Stdout Debug_def)

lemma listWorkers_plain:
  assumes "ResolveClient ext = Inr c"
    and "ListWorkers ext c (StringSlice_filter ctx) = Inr workers"
    and "String_format ctx = []"
  shows "listWorkers ext ctx w =
     (None, w\<lparr>Stdout := dest ((if Bool_verbose ctx then printWorkersVerbose else printWorkersTable)
                              ext (NewWriter (Stdout w)) workers)\<rparr>)"
  using assms by (simp add: listWorkers_def)

subsection \<open>Selection of the renderer\<close>

text \<open>
  C1. Once the workers are fetched, one renderer runs. A template is supplied when the
  flag \<^verbatim>\<open>format\<close> reads as a non-empty string; then the error returned and the
  writer of the application are those of the template path, and the standard output
  is left as it was, whatever the flag \<^verbatim>\<open>verbose\<close> is (it adds an entry to the debug
  log and no error). Without a template the command returns \<^verbatim>\<open>nil\<close> and the standard
  output is the one \<^verbatim>\<open>printWorkersVerbose\<close> leaves when \<^verbatim>\<open>verbose\<close> is set, the one
  \<^verbatim>\<open>printWorkersTable\<close> leaves otherwise; the writer of the application is left as
  it was.
\<close>

theorem renderer_selection:
  assumes "ResolveClient ext = Inr c"
    and "ListWorkers ext c (StringSlice_filter ctx) = Inr workers"
  shows "(String_format ctx \<noteq> [] \<longrightarrow>
            fst (listWorkers ext ctx w) = fst (format_workers ext (String_format ctx) workers w)
          \<and> App_Writer (snd (listWorkers ext ctx w))
              = App_Writer (snd (format_workers ext (String_format ctx) workers w))
          \<and> Stdout (snd (listWorkers ext ctx w)) = Stdout w)
       \<and> (String_format ctx = [] \<and> Bool_verbose ctx \<longrightarrow>
            listWorkers ext ctx w
              = (None, w\<lparr>Stdout := dest (printWorkersVerbose ext (NewWriter (Stdout w)) workers)\<rparr>))
       \<and> (String_format ctx = [] \<and> \<not> Bool_verbose ctx \<longrightarrow>
            listWorkers ext ctx w
              = (None, w\<lparr>Stdout := dest (printWorkersTable ext (NewWriter (Stdout w)) workers)\<rparr>))"
  using listWorkers_format [OF assms, of w] listWorkers_plain [OF assms, of w]
  by simp

theorem renderer_selection_witness:
  "ResolveClient sample_externals = Inr ()
   \<and> ListWorkers sample_externals () (StringSlice_filter sample_context) = Inr [sample_worker]
   \<and> String_format (sample_context\<lparr>flag_verbose := True, flag_format := Some ''{{.}}''\<rparr>) \<noteq> []
   \<and> fst (listWorkers sample_externals
            (sample_context\<lparr>flag_verbose := True, flag_format := Some ''{{.}}''\<rparr>) sample_world)
       = fst (format_workers sample_externals ''{{.}}'' [sample_worker] sample_world)
   \<and> String_format (sample_context\<lparr>flag_verbose := True\<rparr>) = []
   \<and> Bool_verbose (sample_context\<lparr>flag_verbose := True\<rparr>)
   \<and> listWorkers sample_externals (sample_context\<lparr>flag_verbose := True\<rparr>) sample_world
       = (None, sample_world\<lparr>Stdout :=
            dest (printWorkersVerbose sample_externals (NewWriter (Stdout sample_world))
                    [sample_worker])\<rparr>)
   \<and> String_format sample_context = []
   \<and> \<not> Bool_verbose sample_context
   \<and> listWorkers sample_externals sample_context sample_world
       = (None, sample_world\<lparr>Stdout :=
            dest (printWorkersTable sample_externals (NewWriter (Stdout sample_world))
                    [sample_worker])\<rparr>)"
proof -
  let ?t = "sample_context\<lparr>flag_verbose := True, flag_format := Some ''{{.}}''\<rparr>"
  let ?v = "sample_context\<lparr>flag_verbose := True\<rparr>"
  have h1: "ResolveClient sample_externals = Inr ()"
    by (simp add: sample_externals_def)
  have h2: "ListWorkers sample_externals () (StringSlice_filter ctx) = Inr [sample_worker]" for ctx
    by (simp add: sample_externals_def)
  have t: "String_format ?t = ''{{.}}''"
    by (simp add: String_format_def)
  have v: "String_format ?v = []" "Bool_verbose ?v"
    by (simp_all add: String_format_def Bool_verbose_def sample_context_def)
  have p: "String_format sample_context = []" "\<not> Bool_verbose sample_context"
    by (simp_all add: String_format_def Bool_verbose_def sample_context_def)
  from renderer_selection [OF h1 h2, of ?t sample_world] t
  have a: "fst (listWorkers sample_externals ?t sample_world)
       = fst (format_workers sample_externals ''{{.}}'' [sample_worker] sample_world)"
    by simp
  from renderer_selection [OF h1 h2, of ?v sample_world] v
  have b: "listWorkers sample_externals ?v sample_world
       = (None, sample_world\<lparr>Stdout :=
            dest (printWorkersVerbose sample_externals (NewWriter (Stdout sample_world))
                    [sample_worker])\<rparr>)"
    by blast
  from renderer_selection [OF h1 h2, of sample_context sample_world] p
  have c: "listWorkers sample_externals sample_context sample_world
       = (None, sample_world\<lparr>Stdout :=
            dest (printWorkersTable sample_externals (NewWriter (Stdout sample_world))
                    [sample_worker])\<rparr>)"
    by blast
  from h1 h2 [of sample_context] t v p a b c show ?thesis
    by simp
qed

lemma Execute_ok:
  assumes "expand ext tmpl workers = (txt, None)" and "accepts s (length txt)"
  shows "Execute ext tmpl s workers = (fst (sink_Write s txt), None)"
  using assms by (simp add: Execute_def sink_Write_accepts)

lemma Execute_cases:
  "Execute ext tmpl s workers = (s', err) \<Longrightarrow>
     prefix (written s) (written s')
     \<and> (rejected s' \<noteq> rejected s \<longrightarrow> err = Some SinkWriteError)
     \<and> (err = None \<longrightarrow> rejected s' = rejected s)"
  by (auto simp: Execute_def split: prod.splits option.splits dest!: sink_Write_cases)

subsection \<open>Template mode: success\<close>

text \<open>
  C6. When the workers are fetched, the flag \<^verbatim>\<open>format\<close> is not empty, the template
  parses, its expansion on the whole list of workers emits \<open>txt\<close> without failure and
  the writer of the application accepts the bytes, the command returns \<^verbatim>\<open>nil\<close> and the
  writer has received \<open>txt\<close>, the text of this one expansion, followed by one line
  feed; the standard output is left as it was.
\<close>

theorem template_success_output:
  assumes "ResolveClient ext = Inr c"
    and "ListWorkers ext c (StringSlice_filter ctx) = Inr workers"
    and "String_format ctx \<noteq> []"
    and "ParseTemplate ext (String_format ctx) = Inr tmpl"
    and "expand ext tmpl workers = (txt, None)"
    and "accepts (App_Writer w) (length txt + 1)"
  shows "fst (listWorkers ext ctx w) = None
       \<and> written (App_Writer (snd (listWorkers ext ctx w))) = written (App_Writer w) @ txt @ [LF]
       \<and> rejected (App_Writer (snd (listWorkers ext ctx w))) = rejected (App_Writer w)
       \<and> Stdout (snd (listWorkers ext ctx w)) = Stdout w"
proof -
  let ?s = "App_Writer w"
  let ?s1 = "fst (sink_Write ?s txt)"
  have a1: "accepts ?s (length txt)"
    using assms(6) by (simp add: accepts_def split: option.splits)
  then have ex: "Execute ext tmpl ?s workers = (?s1, None)"
    using assms(5) by (rule Execute_ok [rotated])
  have s1: "written ?s1 = written ?s @ txt" "rejected ?s1 = rejected ?s" "accepts ?s1 (length [LF])"
    using a1 assms(6) by (auto simp: sink_Write_accepts accepts_def split: option.splits)
  have fw: "format_workers ext (String_format ctx) workers w
              = (None, w\<lparr>App_Writer := fst (sink_Write ?s1 [LF])\<rparr>)"
    using assms(4) ex s1(3) by (simp add: format_workers_def sink_Write_accepts)
  have s2: "written (fst (sink_Write ?s1 [LF])) = written ?s @ txt @ [LF]"
    "rejected (fst (sink_Write ?s1 [LF])) = rejected ?s"
    using s1 by (simp_all add: sink_Write_accepts)
  from listWorkers_format [OF assms(1-3), of w] fw s2 show ?thesis
    by simp
qed

theorem template_success_output_witness:
  "ResolveClient sample_externals = Inr ()
   \<and> ListWorkers sample_externals ()
        (StringSlice_filter (sample_context\<lparr>flag_format := Some ''workers:''\<rparr>)) = Inr [sample_worker]
   \<and> String_format (sample_context\<lparr>flag_format := Some ''workers:''\<rparr>) \<noteq> []
   \<and> ParseTemplate sample_externals (String_format (sample_context\<lparr>flag_format := Some ''workers:''\<rparr>))
       = Inr ''workers:''
   \<and> expand sample_externals ''workers:'' [sample_worker] = (''workers:'', None)
   \<and> accepts (App_Writer sample_world) (length ''workers:'' + 1)
   \<and> fst (listWorkers sample_externals (sample_context\<lparr>flag_format := Some ''workers:''\<rparr>)
            sample_world) = None
   \<and> written (App_Writer (snd (listWorkers sample_externals
         (sample_context\<lparr>flag_format := Some ''workers:''\<rparr>) sample_world))) = ''workers:'' @ [LF]"
proof -
  let ?ctx = "sample_context\<lparr>flag_format := Some ''workers:''\<rparr>"
  have h1: "ResolveClient sample_externals = Inr ()"
    by (simp add: sample_externals_def)
  have h2: "ListWorkers sample_externals () (StringSlice_filter ?ctx) = Inr [sample_worker]"
    by (simp add: sample_externals_def)
  have h3: "String_format ?ctx \<noteq> []"
    by (simp add: String_format_def)
  have h4: "ParseTemplate sample_externals (String_format ?ctx) = Inr ''workers:''"
    by (simp add: String_format_def sample_externals_def)
  have h5: "expand sample_externals ''workers:'' [sample_worker] = (''workers:'', None)"
    by (simp add: sample_externals_def)
  have h6: "accepts (App_Writer sample_world) (length ''workers:'' + 1)"
    by (simp add: accepts_def sample_world_def open_sink_def)
  have w0: "written (App_Writer sample_world) = []"
    by (simp add: sample_world_def open_sink_def)
  from template_success_output [OF h1 h2 h3 h4 h5 h6] w0
  have "fst (listWorkers sample_externals ?ctx sample_world) = None
      \<and> written (App_Writer (snd (listWorkers sample_externals ?ctx sample_world)))
          = ''workers:'' @ [LF]"
    by simp
  with h1 h2 h3 h4 h5 h6 show ?thesis
    by blast
qed

subsection \<open>Template mode: errors\<close>

text \<open>
  C7. In template mode, when the template does not parse, the command returns the
  error of the parser and neither sink has received anything: the template is not
  executed. When the template parses and its execution returns an error, the command
  returns that error, and the writer of the application is left as the execution left
  it (no line feed is added); in particular a failure of the expansion is returned
  when the writer accepted the text emitted before it.
\<close>

theorem template_errors_returned:
  assumes "ResolveClient ext = Inr c"
    and "ListWorkers ext c (StringSlice_filter ctx) = Inr workers"
    and "String_format ctx \<noteq> []"
  shows "(\<forall>err. ParseTemplate ext (String_format ctx) = Inl err \<longrightarrow>
            fst (listWorkers ext ctx w) = Some err
          \<and> App_Writer (snd (listWorkers ext ctx w)) = App_Writer w
          \<and> Stdout (snd (listWorkers ext ctx w)) = Stdout w)
       \<and> (\<forall>tmpl err. ParseTemplate ext (String_format ctx) = Inr tmpl
            \<and> snd (Execute ext tmpl (App_Writer w) workers) = Some err \<longrightarrow>
            fst (listWorkers ext ctx w) = Some err
          \<and> App_Writer (snd (listWorkers ext ctx w)) = fst (Execute ext tmpl (App_Writer w) workers))
       \<and> (\<forall>tmpl txt err. ParseTemplate ext (String_format ctx) = Inr tmpl
            \<and> expand ext tmpl workers = (txt, Some err) \<and> accepts (App_Writer w) (length txt) \<longrightarrow>
            fst (listWorkers ext ctx w) = Some err)"
proof -
  note lw = listWorkers_format [OF assms, of w]
  have parse: "fst (listWorkers ext ctx w) = Some err
          \<and> App_Writer (snd (listWorkers ext ctx w)) = App_Writer w
          \<and> Stdout (snd (listWorkers ext ctx w)) = Stdout w"
    if "ParseTemplate ext (String_format ctx) = Inl err" for err
    using that lw by (simp add: format_workers_def)
  have exec: "fst (listWorkers ext ctx w) = Some err
          \<and> App_Writer (snd (listWorkers ext ctx w)) = fst (Execute ext tmpl (App_Writer w) workers)"
    if "ParseTemplate ext (String_format ctx) = Inr tmpl"
      and "snd (Execute ext tmpl (App_Writer w) workers) = Some err" for tmpl err
    using that lw by (simp add: format_workers_def split: prod.splits)
  have fail: "snd (Execute ext tmpl (App_Writer w) workers) = Some err"
    if "expand ext tmpl workers = (t, Some err)" and "accepts (App_Writer w) (length t)"
    for tmpl t err
    using that by (simp add: Execute_def sink_Write_accepts)
  from parse exec fail show ?thesis
    by blast
qed

theorem template_errors_returned_witness:
  "ResolveClient sample_externals = Inr ()
   \<and> ParseTemplate sample_externals ''{{'' = Inl (TemplateSyntaxError ''{{'')
   \<and> fst (listWorkers sample_externals (sample_context\<lparr>flag_format := Some ''{{''\<rparr>) sample_world)
       = Some (TemplateSyntaxError ''{{'')
   \<and> App_Writer (snd (listWorkers sample_externals (sample_context\<lparr>flag_format := Some ''{{''\<rparr>)
        sample_world)) = App_Writer sample_world
   \<and> ParseTemplate sample_externals ''{{.X}}'' = Inr ''{{.X}}''
   \<and> expand sample_externals ''{{.X}}'' [sample_worker] = ([], Some (TemplateExecutionError ''{{.X}}''))
   \<and> fst (listWorkers sample_externals (sample_context\<lparr>flag_format := Some ''{{.X}}''\<rparr>) sample_world)
       = Some (TemplateExecutionError ''{{.X}}'')"
proof -
  let ?p = "sample_context\<lparr>flag_format := Some ''{{''\<rparr>"
  let ?x = "sample_context\<lparr>flag_format := Some ''{{.X}}''\<rparr>"
  have h1: "ResolveClient sample_externals = Inr ()"
    by (simp add: sample_externals_def)
  have h2: "ListWorkers sample_externals () (StringSlice_filter ctx) = Inr [sample_worker]" for ctx
    by (simp add: sample_externals_def)
  have fp: "String_format ?p = ''{{''" and fx: "String_format ?x = ''{{.X}}''"
    by (simp_all add: String_format_def)
  have hp: "String_format ?p \<noteq> []" and hx: "String_format ?x \<noteq> []"
    by (simp_all add: String_format_def)
  have pp: "ParseTemplate sample_externals ''{{'' = Inl (TemplateSyntaxError ''{{'')"
    by (simp add: sample_externals_def)
  have px: "ParseTemplate sample_externals ''{{.X}}'' = Inr ''{{.X}}''"
    by (simp add: sample_externals_def)
  have ex: "expand sample_externals ''{{.X}}'' [sample_worker]
              = ([], Some (TemplateExecutionError ''{{.X}}''))"
    by (simp add: sample_externals_def)
  have ac: "accepts (App_Writer sample_world) (length ([] :: string))"
    by (simp add: accepts_def sample_world_def open_sink_def)
  from template_errors_returned [OF h1 h2 hp, of sample_world] pp
  have a: "fst (listWorkers sample_externals ?p sample_world) = Some (TemplateSyntaxError ''{{'')
      \<and> App_Writer (snd (listWorkers sample_externals ?p sample_world)) = App_Writer sample_world"
    unfolding fp by blast
  from template_errors_returned [OF h1 h2 hx, of sample_world] px ex ac
  have b: "fst (listWorkers sample_externals ?x sample_world)
             = Some (TemplateExecutionError ''{{.X}}'')"
    unfolding fx by blast
  from h1 pp px ex a b show ?thesis
    by blast
qed

subsection \<open>Failed writes\<close>

lemma format_workers_cases:
  assumes "format_workers ext f ws w = (e, w')"
  shows "prefix (written (App_Writer w)) (written (App_Writer w'))
       \<and> (rejected (App_Writer w') \<noteq> rejected (App_Writer w) \<longrightarrow> e = Some SinkWriteError)"
proof (cases "ParseTemplate ext f")
  case (Inl err)
  with assms show ?thesis
    by (auto simp: format_workers_def)
next
  case (Inr tmpl)
  obtain s1 e1 where ex: "Execute ext tmpl (App_Writer w) ws = (s1, e1)"
    by (cases "Execute ext tmpl (App_Writer w) ws")
  note c1 = Execute_cases [OF ex]
  show ?thesis
  proof (cases e1)
    case (Some err)
    with assms Inr ex c1 show ?thesis
      by (auto simp: format_workers_def)
  next
    case None
    obtain s2 e2 where nl: "sink_Write s1 [LF] = (s2, e2)"
      by (cases "sink_Write s1 [LF]")
    from sink_Write_cases [OF nl] have p2: "prefix (written s1) (written s2)"
      and r2: "rejected s2 \<noteq> rejected s1 \<longrightarrow> e2 = Some SinkWriteError"
      by auto
    from assms Inr ex None nl have res: "e = e2" "App_Writer w' = s2"
      by (auto simp: format_workers_def)
    from c1 None have r1: "rejected s1 = rejected (App_Writer w)"
      by simp
    from c1 p2 have "prefix (written (App_Writer w)) (written s2)"
      by (meson prefix_order.trans)
    with res r1 r2 show ?thesis
      by simp
  qed
qed

text \<open>
  C8, amended. In template mode every write that the writer of the application
  rejects, of the expansion or of the final line feed, makes the command return the
  write error, and what the writer had received before stays there. In table and in
  verbose mode the command returns \<^verbatim>\<open>nil\<close> in every case: the renderers have no
  result and drop what the writes and the flush report.
\<close>

theorem write_failures:
  assumes "ResolveClient ext = Inr c"
    and "ListWorkers ext c (StringSlice_filter ctx) = Inr workers"
  shows "(String_format ctx \<noteq> [] \<longrightarrow>
            (rejected (App_Writer (snd (listWorkers ext ctx w))) \<noteq> rejected (App_Writer w) \<longrightarrow>
               fst (listWorkers ext ctx w) = Some SinkWriteError)
          \<and> prefix (written (App_Writer w)) (written (App_Writer (snd (listWorkers ext ctx w)))))
       \<and> (String_format ctx = [] \<longrightarrow> fst (listWorkers ext ctx w) = None)"
proof -
  have "fst (listWorkers ext ctx w) = None" if "String_format ctx = []"
    using listWorkers_plain [OF assms that, of w] by simp
  moreover have "(rejected (App_Writer (snd (listWorkers ext ctx w))) \<noteq> rejected (App_Writer w) \<longrightarrow>
               fst (listWorkers ext ctx w) = Some SinkWriteError)
          \<and> prefix (written (App_Writer w)) (written (App_Writer (snd (listWorkers ext ctx w))))"
    if "String_format ctx \<noteq> []"
    using listWorkers_format [OF assms that, of w]
      format_workers_cases [OF surjective_pairing [of "format_workers ext (String_format ctx) workers w"]]
    by simp
  ultimately show ?thesis
    by blast
qed

theorem write_failures_witness:
  "ResolveClient sample_externals = Inr ()
   \<and> String_format (sample_context\<lparr>flag_format := Some ''workers:''\<rparr>) \<noteq> []
   \<and> rejected (App_Writer (snd (listWorkers sample_externals
        (sample_context\<lparr>flag_format := Some ''workers:''\<rparr>) full_world)))
       \<noteq> rejected (App_Writer full_world)
   \<and> fst (listWorkers sample_externals (sample_context\<lparr>flag_format := Some ''workers:''\<rparr>) full_world)
       = Some SinkWriteError
   \<and> String_format sample_context = []
   \<and> fst (listWorkers sample_externals sample_context full_world) = None"
proof -
  let ?t = "sample_context\<lparr>flag_format := Some ''workers:''\<rparr>"
  have h1: "ResolveClient sample_externals = Inr ()"
    by (simp add: sample_externals_def)
  have h2: "ListWorkers sample_externals () (StringSlice_filter ctx) = Inr [sample_worker]" for ctx
    by (simp add: sample_externals_def)
  have t: "String_format ?t \<noteq> []" and p: "String_format sample_context = []"
    by (simp_all add: String_format_def sample_context_def)
  have r: "rejected (App_Writer (snd (listWorkers sample_externals ?t full_world)))
             \<noteq> rejected (App_Writer full_world)"
    by (simp add: listWorkers_def sample_externals_def String_format_def Bool_verbose_def
        sample_context_def format_workers_def Execute_def sink_Write_def full_world_def
        full_sink_def)
  from write_failures [OF h1 h2, of ?t full_world] t r
  have a: "fst (listWorkers sample_externals ?t full_world) = Some SinkWriteError"
    by blast
  from write_failures [OF h1 h2, of sample_context full_world] p
  have b: "fst (listWorkers sample_externals sample_context full_world) = None"
    by blast
  from h1 t r a p b show ?thesis
    by blast
qed

text \<open>
  The claim as it is written fails in table mode: with a standard output that accepts
  nothing, the flush of the header row is rejected and the command still returns
  \<^verbatim>\<open>nil\<close>.
\<close>

theorem table_write_failure_dropped:
  "rejected (Stdout full_world) = 0
   \<and> rejected (Stdout (snd (listWorkers sample_externals sample_context full_world))) = 1
   \<and> written (Stdout (snd (listWorkers sample_externals sample_context full_world))) = []
   \<and> fst (listWorkers sample_externals sample_context full_world) = None"
  by (simp add: listWorkers_def sample_externals_def String_format_def Bool_verbose_def
      sample_context_def printWorkersTable_def Flush_def queued_table_rows dest_table_rows
      NewWriter_def table_header_def sink_Write_def full_world_def full_sink_def)

subsection \<open>An empty template\<close>

text \<open>
  C10. A flag \<^verbatim>\<open>format\<close> that is given and empty has the effect of a flag that is not
  given: the command does the same, it does so whatever the parser and the expansion of
  templates are, so that neither can contribute an error, and once the workers are
  fetched it returns \<^verbatim>\<open>nil\<close> after the verbose renderer, when \<^verbatim>\<open>verbose\<close> is set, or
  the table renderer.
\<close>

theorem empty_format_is_absent:
  "listWorkers ext (ctx\<lparr>flag_format := Some []\<rparr>) w = listWorkers ext (ctx\<lparr>flag_format := None\<rparr>) w
   \<and> listWorkers (ext\<lparr>ParseTemplate := p, expand := x\<rparr>) (ctx\<lparr>flag_format := Some []\<rparr>) w
       = listWorkers ext (ctx\<lparr>flag_format := Some []\<rparr>) w
   \<and> (\<forall>c workers. ResolveClient ext = Inr c \<and> ListWorkers ext c (flag_filter ctx) = Inr workers \<longrightarrow>
         listWorkers ext (ctx\<lparr>flag_format := Some []\<rparr>) w
           = (None, w\<lparr>Stdout := dest ((if flag_verbose ctx then printWorkersVerbose
                                      else printWorkersTable) ext (NewWriter (Stdout w)) workers)\<rparr>))"
proof -
  have same: "listWorkers ext (ctx\<lparr>flag_format := Some []\<rparr>) w
                = listWorkers ext (ctx\<lparr>flag_format := None\<rparr>) w"
    by (simp add: listWorkers_def String_format_def Bool_verbose_def StringSlice_filter_def
        split: sum.splits)
  have table: "printWorkersTable (ext\<lparr>ParseTemplate := p, expand := x\<rparr>) tw ws
                 = printWorkersTable ext tw ws" for tw ws
    by (simp add: printWorkersTable_def Flush_def table_rows_def table_row_def joinPlatforms_def)
  have rule: "verbose_rule (ext\<lparr>ParseTemplate := p, expand := x\<rparr>) = verbose_rule ext"
    by (simp add: fun_eq_iff verbose_rule_def cong: if_cong)
  have worker: "verbose_worker (ext\<lparr>ParseTemplate := p, expand := x\<rparr>) = verbose_worker ext"
    by (simp add: fun_eq_iff verbose_worker_def rule joinPlatforms_def)
  have verbose: "printWorkersVerbose (ext\<lparr>ParseTemplate := p, expand := x\<rparr>) tw ws
                 = printWorkersVerbose ext tw ws" for tw ws
    by (simp add: printWorkersVerbose_def Flush_def verbose_blocks_def worker)
  have indep: "listWorkers (ext\<lparr>ParseTemplate := p, expand := x\<rparr>) (ctx\<lparr>flag_format := Some []\<rparr>) w
       = listWorkers ext (ctx\<lparr>flag_format := Some []\<rparr>) w"
    by (simp add: listWorkers_def String_format_def table verbose split: sum.splits)
  have mode: "listWorkers ext (ctx\<lparr>flag_format := Some []\<rparr>) w
           = (None, w\<lparr>Stdout := dest ((if flag_verbose ctx then printWorkersVerbose
                                      else printWorkersTable) ext (NewWriter (Stdout w)) workers)\<rparr>)"
    if "ResolveClient ext = Inr c" and "ListWorkers ext c (flag_filter ctx) = Inr workers"
    for c workers
    using that
    by (simp add: listWorkers_def String_format_def Bool_verbose_def StringSlice_filter_def)
  from same indep mode show ?thesis
    by blast
qed

theorem empty_format_is_absent_witness:
  "ResolveClient sample_externals = Inr ()
   \<and> ListWorkers sample_externals () (flag_filter sample_context) = Inr [sample_worker]
   \<and> listWorkers sample_externals (sample_context\<lparr>flag_format := Some []\<rparr>) sample_world
       = (None, sample_world\<lparr>Stdout :=
            dest (printWorkersTable sample_externals (NewWriter (Stdout sample_world))
                    [sample_worker])\<rparr>)
   \<and> listWorkers sample_externals (sample_context\<lparr>flag_format := Some []\<rparr>) sample_world
       = listWorkers sample_externals (sample_context\<lparr>flag_format := None\<rparr>) sample_world"
proof -
  have h1: "ResolveClient sample_externals = Inr ()"
    by (simp add: sample_externals_def)
  have h2: "ListWorkers sample_externals () (flag_filter sample_context) = Inr [sample_worker]"
    by (simp add: sample_externals_def)
  have v: "\<not> flag_verbose sample_context"
    by (simp add: sample_context_def)
  note t = empty_format_is_absent [of sample_externals sample_context sample_world]
  from t h1 h2
  have "listWorkers sample_externals (sample_context\<lparr>flag_format := Some []\<rparr>) sample_world
       = (None, sample_world\<lparr>Stdout :=
            dest ((if flag_verbose sample_context then printWorkersVerbose else printWorkersTable)
                    sample_externals (NewWriter (Stdout sample_world)) [sample_worker])\<rparr>)"
    by blast
  with v have a: "listWorkers sample_externals (sample_context\<lparr>flag_format := Some []\<rparr>) sample_world
       = (None, sample_world\<lparr>Stdout :=
            dest (printWorkersTable sample_externals (NewWriter (Stdout sample_world))
                    [sample_worker])\<rparr>)"
    by simp
  from t have b: "listWorkers sample_externals (sample_context\<lparr>flag_format := Some []\<rparr>) sample_world
       = listWorkers sample_externals (sample_context\<lparr>flag_format := None\<rparr>) sample_world"
    by blast
  from h1 h2 a b show ?thesis
    by blast
qed

subsection \<open>Determinism\<close>










end
